theory Spec2Isabelle
  imports Complex_Main
begin

section \<open>The monthly financial ledger of \<^verbatim>\<open>money/coder_2.0.py\<close>\<close>

text \<open>
  A shallow embedding of the planner's model class \<^verbatim>\<open>FinancialPlannerModel\<close>, of the
  controller's \<^verbatim>\<open>add_month_data\<close> and of the two view methods that touch the ledger
  (\<^verbatim>\<open>add_month_data\<close>, \<^verbatim>\<open>clear_all\<close>).

  Conventions of the embedding.
  \<^item> Python values that come out of \<^verbatim>\<open>json.load\<close> are values of the datatype \<open>json\<close>.
    Python does not check the annotations of a dataclass, so the attributes of a
    \<^verbatim>\<open>MonthData\<close> built by \<^verbatim>\<open>load_data\<close> or \<^verbatim>\<open>import_data\<close> hold whatever the
    document held; the attributes are therefore \<open>json\<close> values too.
  \<^item> A Python \<^verbatim>\<open>float\<close> or \<^verbatim>\<open>int\<close> is a \<open>real\<close>: rounding, \<^verbatim>\<open>inf\<close> and \<^verbatim>\<open>nan\<close> are
    outside the model, and \<^verbatim>\<open>1 == 1.0\<close> holds as in Python.
  \<^item> A \<^verbatim>\<open>dict\<close> is an association list in insertion order (Python dicts keep it, and
    the order decides which invalid field is reported first).
  \<^item> Objects are values: \<^verbatim>\<open>copy.deepcopy\<close> is the identity, and equality is Python's
    deep \<^verbatim>\<open>==\<close> of dataclasses.
  \<^item> A raised exception is a value of \<open>error\<close>. A method that can raise returns the
    exception (or \<open>None\<close>) together with the state it leaves behind.
  \<^item> The file system, the log file and the message boxes are the record \<open>world\<close>,
    threaded through every operation.
\<close>

subsection \<open>JSON values and the Python operations used on them\<close>

datatype json =
    JNull
  | JBool bool
  | JNum real
  | JStr string
  | JArr "json list"
  | JObj "(string \<times> json) list"

datatype error =
    InputValidationError string
  | KeyError string
  | TypeError
  | ValueError
  | AttributeError
  | JSONDecodeError
  | FileNotFoundError
  | OSError

text \<open>\<^verbatim>\<open>obj[key]\<close> with a string key: only a dict can be subscripted by a string.\<close>

definition getitem :: "json \<Rightarrow> string \<Rightarrow> error + json" where
  "getitem obj k =
     (case obj of
        JObj kvs \<Rightarrow> (case map_of kvs k of None \<Rightarrow> Inl (KeyError k) | Some v \<Rightarrow> Inr v)
      | _ \<Rightarrow> Inl TypeError)"

text \<open>\<^verbatim>\<open>obj.get(key, default)\<close>: a method of dicts only.\<close>

definition get_default :: "json \<Rightarrow> string \<Rightarrow> json \<Rightarrow> error + json" where
  "get_default obj k d =
     (case obj of
        JObj kvs \<Rightarrow> (case map_of kvs k of None \<Rightarrow> Inr d | Some v \<Rightarrow> Inr v)
      | _ \<Rightarrow> Inl AttributeError)"

definition is_substring :: "string \<Rightarrow> string \<Rightarrow> bool" where
  "is_substring k s = list_ex (\<lambda>i. take (length k) (drop i s) = k) [0 ..< Suc (length s)]"

text \<open>\<^verbatim>\<open>key in obj\<close> with a string key: key membership for a dict, element membership
  for a list, substring test for a string, \<^verbatim>\<open>TypeError\<close> otherwise.\<close>

definition contains :: "string \<Rightarrow> json \<Rightarrow> error + bool" where
  "contains k obj =
     (case obj of
        JObj kvs \<Rightarrow> Inr (map_of kvs k \<noteq> None)
      | JArr xs \<Rightarrow> Inr (list_ex (\<lambda>x. x = JStr k) xs)
      | JStr s \<Rightarrow> Inr (is_substring k s)
      | _ \<Rightarrow> Inl TypeError)"

text \<open>\<^verbatim>\<open>for entry in data\<close>: a list yields its elements, a dict its keys, a string its
  characters; nothing else is iterable.\<close>

definition iter :: "json \<Rightarrow> error + json list" where
  "iter data =
     (case data of
        JArr xs \<Rightarrow> Inr xs
      | JObj kvs \<Rightarrow> Inr (map (\<lambda>kv. JStr (fst kv)) kvs)
      | JStr s \<Rightarrow> Inr (map (\<lambda>c. JStr [c]) s)
      | _ \<Rightarrow> Inl TypeError)"

text \<open>Sequencing of computations that may raise.\<close>

definition bind_err :: "error + 'a \<Rightarrow> ('a \<Rightarrow> error + 'b) \<Rightarrow> error + 'b" where
  "bind_err r f = (case r of Inl e \<Rightarrow> Inl e | Inr x \<Rightarrow> f x)"

subsection \<open>The dataclasses\<close>

record PortfolioData =
  pd_fields :: json
  pd_version :: json

record SingleValueData =
  sv_value :: json
  sv_version :: json

record MonthData =
  month :: json
  chumz :: PortfolioData
  cash :: SingleValueData
  crypto :: SingleValueData
  etica :: SingleValueData
  ziidi :: PortfolioData
  timestamp :: json

text \<open>\<^verbatim>\<open>dataclasses.asdict\<close>: one dict per dataclass, keyed by attribute name, in the
  order of declaration.\<close>

definition asdict_PortfolioData :: "PortfolioData \<Rightarrow> json" where
  "asdict_PortfolioData p = JObj [(''fields'', pd_fields p), (''version'', pd_version p)]"

definition asdict_SingleValueData :: "SingleValueData \<Rightarrow> json" where
  "asdict_SingleValueData s = JObj [(''value'', sv_value s), (''version'', sv_version s)]"

definition asdict :: "MonthData \<Rightarrow> json" where
  "asdict md = JObj
     [(''month'', month md),
      (''chumz'', asdict_PortfolioData (chumz md)),
      (''cash'', asdict_SingleValueData (cash md)),
      (''crypto'', asdict_SingleValueData (crypto md)),
      (''etica'', asdict_SingleValueData (etica md)),
      (''ziidi'', asdict_PortfolioData (ziidi md)),
      (''timestamp'', timestamp md)]"

subsection \<open>The world outside the ledger: files, log, message boxes\<close>

text \<open>A file's content is seen through \<^verbatim>\<open>json.load\<close>: it cannot be opened, it is not
  JSON, or it parses to a value. \<^verbatim>\<open>json.dump\<close> followed by \<^verbatim>\<open>json.load\<close> gives the
  value back.\<close>

datatype file_content = Unreadable | Malformed | Json json

datatype level = INFO | ERROR

datatype log_arg = ArgStr string | ArgJson json | ArgErr error

type_synonym log_record = "level \<times> string \<times> log_arg list"

text \<open>\<^verbatim>\<open>show_error(str(e))\<close> is recorded with the exception \<open>e\<close> itself.\<close>

datatype dialog = ShowInfo string | ShowError error

record world =
  fs :: "string \<Rightarrow> file_content option"
  writable :: "string \<Rightarrow> bool"
  logged :: "log_record list"
  shown :: "dialog list"

definition logger_info :: "world \<Rightarrow> string \<Rightarrow> log_arg list \<Rightarrow> world" where
  "logger_info w msg args = w\<lparr>logged := logged w @ [(INFO, msg, args)]\<rparr>"

definition logger_error :: "world \<Rightarrow> string \<Rightarrow> error \<Rightarrow> world" where
  "logger_error w msg e = w\<lparr>logged := logged w @ [(ERROR, msg, [ArgErr e])]\<rparr>"

definition show_info :: "world \<Rightarrow> string \<Rightarrow> world" where
  "show_info w msg = w\<lparr>shown := shown w @ [ShowInfo msg]\<rparr>"

definition show_error :: "world \<Rightarrow> error \<Rightarrow> world" where
  "show_error w e = w\<lparr>shown := shown w @ [ShowError e]\<rparr>"

text \<open>\<^verbatim>\<open>with open(path, "r") as f: data = json.load(f)\<close>\<close>

definition read_json :: "world \<Rightarrow> string \<Rightarrow> error + json" where
  "read_json w path =
     (case fs w path of
        None \<Rightarrow> Inl FileNotFoundError
      | Some Unreadable \<Rightarrow> Inl OSError
      | Some Malformed \<Rightarrow> Inl JSONDecodeError
      | Some (Json j) \<Rightarrow> Inr j)"

text \<open>\<^verbatim>\<open>with open(path, "w") as f: json.dump(data, f, indent=4)\<close>\<close>

definition write_json :: "world \<Rightarrow> string \<Rightarrow> json \<Rightarrow> error + world" where
  "write_json w path j =
     (if writable w path then Inr (w\<lparr>fs := (fs w)(path \<mapsto> Json j)\<rparr>) else Inl OSError)"

subsection \<open>The model class\<close>

record FinancialPlannerModel =
  storage_file :: string
  months :: "MonthData list"
  undo_stack :: "MonthData list list"
  redo_stack :: "MonthData list list"

definition save_data :: "world \<Rightarrow> FinancialPlannerModel \<Rightarrow> world" where
  "save_data w m =
     (case write_json w (storage_file m) (JArr (map asdict (months m))) of
        Inr w' \<Rightarrow> logger_info w' ''Data saved to %s'' [ArgStr (storage_file m)]
      | Inl e \<Rightarrow> logger_error w ''Save data failed: %s'' e)"

definition add_month ::
  "world \<Rightarrow> FinancialPlannerModel \<Rightarrow> MonthData \<Rightarrow> world \<times> FinancialPlannerModel" where
  "add_month w m month_data =
     (let m1 = m\<lparr>undo_stack := undo_stack m @ [months m]\<rparr>;
          m2 = m1\<lparr>redo_stack := []\<rparr>;
          m3 = m2\<lparr>months := months m2 @ [month_data]\<rparr>;
          w1 = logger_info w ''Added month data for %s'' [ArgJson (month month_data)]
      in (save_data w1 m3, m3))"

definition undo ::
  "world \<Rightarrow> FinancialPlannerModel \<Rightarrow> error option \<times> world \<times> FinancialPlannerModel" where
  "undo w m =
     (if undo_stack m \<noteq> [] then
        let m1 = m\<lparr>redo_stack := redo_stack m @ [months m]\<rparr>;
            m2 = m1\<lparr>months := last (undo_stack m1), undo_stack := butlast (undo_stack m1)\<rparr>;
            w1 = logger_info w ''Undo performed'' []
        in (None, save_data w1 m2, m2)
      else (Some (InputValidationError ''Nothing to undo.''), w, m))"

definition redo ::
  "world \<Rightarrow> FinancialPlannerModel \<Rightarrow> error option \<times> world \<times> FinancialPlannerModel" where
  "redo w m =
     (if redo_stack m \<noteq> [] then
        let m1 = m\<lparr>undo_stack := undo_stack m @ [months m]\<rparr>;
            m2 = m1\<lparr>months := last (redo_stack m1), redo_stack := butlast (redo_stack m1)\<rparr>;
            w1 = logger_info w ''Redo performed'' []
        in (None, save_data w1 m2, m2)
      else (Some (InputValidationError ''Nothing to redo.''), w, m))"

subsection \<open>Decoding a stored document\<close>

text \<open>
  \<^verbatim>\<open>load_data\<close> and \<^verbatim>\<open>import_data\<close> build each \<^verbatim>\<open>MonthData\<close> with the same
  expression. Its sub-expressions are named here; arguments are evaluated left to right,
  so the first failing subscript decides the exception.

  \<^verbatim>\<open>PortfolioData(fields=entry[k]["fields"], version=entry[k].get("version", 1))\<close>
\<close>

definition PortfolioData_of :: "json \<Rightarrow> string \<Rightarrow> error + PortfolioData" where
  "PortfolioData_of entry k =
     bind_err (getitem entry k) (\<lambda>p.
     bind_err (getitem p ''fields'') (\<lambda>f.
     bind_err (get_default p ''version'' (JNum 1)) (\<lambda>v.
     Inr \<lparr>pd_fields = f, pd_version = v\<rparr>)))"

text \<open>\<^verbatim>\<open>SingleValueData(value=entry[k]["value"], version=entry[k].get("version", 1))\<close>\<close>

definition SingleValueData_of :: "json \<Rightarrow> string \<Rightarrow> error + SingleValueData" where
  "SingleValueData_of entry k =
     bind_err (getitem entry k) (\<lambda>s.
     bind_err (getitem s ''value'') (\<lambda>v.
     bind_err (get_default s ''version'' (JNum 1)) (\<lambda>ver.
     Inr \<lparr>sv_value = v, sv_version = ver\<rparr>)))"

text \<open>\<^verbatim>\<open>SingleValueData(value=entry["etica"]["value"] if "value" in entry["etica"]
  else entry["etica"]["investment"], version=entry["etica"].get("version", 1))\<close>\<close>

definition etica_of :: "json \<Rightarrow> error + SingleValueData" where
  "etica_of entry =
     bind_err (getitem entry ''etica'') (\<lambda>s.
     bind_err (contains ''value'' s) (\<lambda>has_value.
     bind_err (if has_value then getitem s ''value'' else getitem s ''investment'') (\<lambda>v.
     bind_err (get_default s ''version'' (JNum 1)) (\<lambda>ver.
     Inr \<lparr>sv_value = v, sv_version = ver\<rparr>))))"

text \<open>The whole \<^verbatim>\<open>MonthData(...)\<close> expression; \<open>now\<close> is
  \<^verbatim>\<open>datetime.now().isoformat()\<close>, the default of a missing timestamp.\<close>

definition MonthData_of :: "string \<Rightarrow> json \<Rightarrow> error + MonthData" where
  "MonthData_of now entry =
     bind_err (getitem entry ''month'') (\<lambda>mo.
     bind_err (PortfolioData_of entry ''chumz'') (\<lambda>ch.
     bind_err (SingleValueData_of entry ''cash'') (\<lambda>ca.
     bind_err (SingleValueData_of entry ''crypto'') (\<lambda>cr.
     bind_err (etica_of entry) (\<lambda>et.
     bind_err (PortfolioData_of entry ''ziidi'') (\<lambda>zi.
     bind_err (get_default entry ''timestamp'' (JStr now)) (\<lambda>ts.
     Inr \<lparr>month = mo, chumz = ch, cash = ca, crypto = cr, etica = et, ziidi = zi,
          timestamp = ts\<rparr>)))))))"

text \<open>The loop \<^verbatim>\<open>for entry in data: md = MonthData(...); self.months.append(md)\<close>,
  with \<open>ms\<close> the list \<^verbatim>\<open>self.months\<close>. It stops at the first entry that raises and
  returns the exception with the list as it stands. \<open>clock i\<close> is the clock's reading
  while the entry appended at position \<open>i\<close> is built.\<close>

fun append_entries ::
  "(nat \<Rightarrow> string) \<Rightarrow> json list \<Rightarrow> MonthData list \<Rightarrow> error option \<times> MonthData list" where
  "append_entries clock [] ms = (None, ms)"
| "append_entries clock (entry # rest) ms =
     (case MonthData_of (clock (length ms)) entry of
        Inl e \<Rightarrow> (Some e, ms)
      | Inr md \<Rightarrow> append_entries clock rest (ms @ [md]))"

subsection \<open>Export, import, load\<close>


definition import_data ::
  "(nat \<Rightarrow> string) \<Rightarrow> world \<Rightarrow> FinancialPlannerModel \<Rightarrow> string \<Rightarrow>
     error option \<times> world \<times> FinancialPlannerModel" where
  "import_data clock w m filepath =
     (case read_json w filepath of
        Inl e \<Rightarrow> (Some e, logger_error w ''Import failed: %s'' e, m)
      | Inr data \<Rightarrow>
          (let m1 = m\<lparr>months := []\<rparr> in
           case iter data of
             Inl e \<Rightarrow> (Some e, logger_error w ''Import failed: %s'' e, m1)
           | Inr entries \<Rightarrow>
               (case append_entries clock entries (months m1) of
                  (Some e, ms) \<Rightarrow>
                    (Some e, logger_error w ''Import failed: %s'' e, m1\<lparr>months := ms\<rparr>)
                | (None, ms) \<Rightarrow>
                    (None, logger_info w ''Data imported from %s'' [ArgStr filepath],
                     m1\<lparr>months := ms\<rparr>))))"

text \<open>\<^verbatim>\<open>load_data\<close> catches every exception of its \<^verbatim>\<open>try\<close> block, logs it and resets
  \<^verbatim>\<open>self.months\<close>; \<^verbatim>\<open>os.path.exists\<close> is true of a file that cannot be opened.\<close>

definition load_data ::
  "(nat \<Rightarrow> string) \<Rightarrow> world \<Rightarrow> FinancialPlannerModel \<Rightarrow> world \<times> FinancialPlannerModel" where
  "load_data clock w m =
     (if fs w (storage_file m) \<noteq> None then
        (case read_json w (storage_file m) of
           Inl e \<Rightarrow> (logger_error w ''Failed to load data: %s'' e, m\<lparr>months := []\<rparr>)
         | Inr data \<Rightarrow>
             (let m1 = m\<lparr>months := []\<rparr> in
              case iter data of
                Inl e \<Rightarrow> (logger_error w ''Failed to load data: %s'' e, m1\<lparr>months := []\<rparr>)
              | Inr entries \<Rightarrow>
                  (case append_entries clock entries (months m1) of
                     (Some e, ms) \<Rightarrow>
                       (logger_error w ''Failed to load data: %s'' e, m1\<lparr>months := []\<rparr>)
                   | (None, ms) \<Rightarrow>
                       (logger_info w ''Data loaded from %s'' [ArgStr (storage_file m)],
                        m1\<lparr>months := ms\<rparr>))))
      else (logger_info w ''No storage file found. Starting with empty data.'' [], m))"

text \<open>The constructor \<^verbatim>\<open>FinancialPlannerModel.__init__\<close>.\<close>

definition init_model ::
  "(nat \<Rightarrow> string) \<Rightarrow> world \<Rightarrow> string \<Rightarrow> world \<times> FinancialPlannerModel" where
  "init_model clock w storage =
     load_data clock w
       \<lparr>storage_file = storage, months = [], undo_stack = [], redo_stack = []\<rparr>"

subsection \<open>The controller: validating and adding a month\<close>

text \<open>\<^verbatim>\<open>str.strip()\<close> on ASCII text: the whitespace characters are tab, line feed,
  vertical tab, form feed, carriage return, the separators 28 to 31 and the space.\<close>

definition isspace :: "char \<Rightarrow> bool" where
  "isspace c = (let n = (of_char c :: nat) in (9 \<le> n \<and> n \<le> 13) \<or> (28 \<le> n \<and> n \<le> 32))"

definition strip :: "string \<Rightarrow> string" where
  "strip s = rev (dropWhile isspace (rev (dropWhile isspace s)))"

text \<open>
  The built-in \<^verbatim>\<open>float\<close> is a parameter \<open>pf\<close> of the controller's functions: \<open>pf s\<close> is
  \<open>None\<close> where \<^verbatim>\<open>float(s)\<close> raises \<^verbatim>\<open>ValueError\<close>. The general theorems hold for
  every such parser. \<open>py_float\<close> is \<^verbatim>\<open>float\<close> on plain decimal literals (surrounding
  whitespace, an optional sign, digits with an optional fraction), used for concrete
  inputs; exponents, digit-group underscores, \<^verbatim>\<open>inf\<close> and \<^verbatim>\<open>nan\<close> are not covered
  by it.
\<close>

definition isdigit :: "char \<Rightarrow> bool" where
  "isdigit c = (let n = (of_char c :: nat) in 48 \<le> n \<and> n \<le> 57)"

definition nat_of_digits :: "string \<Rightarrow> nat" where
  "nat_of_digits ds = foldl (\<lambda>n c. 10 * n + (of_char c - 48)) 0 ds"

definition unsigned_float :: "string \<Rightarrow> real option" where
  "unsigned_float s =
     (let ip = takeWhile isdigit s; r = dropWhile isdigit s in
      if r = [] then (if ip = [] then None else Some (real (nat_of_digits ip)))
      else if hd r = CHR ''.'' \<and> list_all isdigit (tl r) \<and> (ip \<noteq> [] \<or> tl r \<noteq> [])
      then Some (real (nat_of_digits ip) + real (nat_of_digits (tl r)) / 10 ^ length (tl r))
      else None)"

definition py_float :: "string \<Rightarrow> real option" where
  "py_float s =
     (case strip s of
        [] \<Rightarrow> None
      | c # r \<Rightarrow>
          if c = CHR ''-'' then map_option uminus (unsigned_float r)
          else if c = CHR ''+'' then unsigned_float r
          else unsigned_float (c # r))"

definition validate_numeric_field ::
  "(string \<Rightarrow> real option) \<Rightarrow> string \<Rightarrow> string \<Rightarrow> error + real" where
  "validate_numeric_field pf val field_name =
     (case pf val of
        Some x \<Rightarrow> Inr x
      | None \<Rightarrow>
          Inl (InputValidationError (''Invalid number for '' @ field_name @ '': '' @ val)))"

text \<open>The dict comprehension
  \<^verbatim>\<open>{key: self.validate_numeric_field(val, key) for key, val in d.items()}\<close>:
  the items are validated in order and the first invalid one raises.\<close>

fun validate_fields ::
  "(string \<Rightarrow> real option) \<Rightarrow> (string \<times> string) list \<Rightarrow> error + (string \<times> real) list" where
  "validate_fields pf [] = Inr []"
| "validate_fields pf ((key, val) # items) =
     bind_err (validate_numeric_field pf val key) (\<lambda>x.
     bind_err (validate_fields pf items) (\<lambda>xs. Inr ((key, x) # xs)))"

text \<open>The argument \<^verbatim>\<open>data: dict\<close> of the controller's \<^verbatim>\<open>add_month_data\<close>: each key
  may be absent (\<open>None\<close>), and the code reads it with \<^verbatim>\<open>data.get(key, default)\<close>. The
  values have the types the view gives them: strings, and string-to-string dicts for
  the two multi-field portfolios.\<close>

record form_data =
  d_month :: "string option"
  d_Chumz :: "(string \<times> string) list option"
  d_Cash :: "string option"
  d_Crypto :: "string option"
  d_Etica :: "string option"
  d_Ziidi :: "(string \<times> string) list option"

definition dict_get :: "'a option \<Rightarrow> 'a \<Rightarrow> 'a" where
  "dict_get entry d = (case entry of None \<Rightarrow> d | Some v \<Rightarrow> v)"

definition fields_json :: "(string \<times> real) list \<Rightarrow> json" where
  "fields_json kvs = JObj (map (\<lambda>kv. (fst kv, JNum (snd kv))) kvs)"

text \<open>Lines 244 to 261 of \<^verbatim>\<open>add_month_data\<close>: from the raw input to the new
  \<^verbatim>\<open>MonthData\<close>, or the exception raised on the way. \<open>now\<close> is the timestamp the
  dataclass takes from the clock; the version tags take their default 1.\<close>

definition new_month_data ::
  "(string \<Rightarrow> real option) \<Rightarrow> string \<Rightarrow> form_data \<Rightarrow> error + MonthData" where
  "new_month_data pf now data =
     (let month_label = strip (dict_get (d_month data) []) in
      if month_label = [] then Inl (InputValidationError ''Month label cannot be empty.'')
      else
        bind_err (validate_fields pf (dict_get (d_Chumz data) [])) (\<lambda>chumz_fields.
        bind_err (validate_numeric_field pf (dict_get (d_Cash data) ''0'') ''Cash'') (\<lambda>cash_val.
        bind_err (validate_numeric_field pf (dict_get (d_Crypto data) ''0'') ''Crypto'') (\<lambda>crypto_val.
        bind_err (validate_numeric_field pf (dict_get (d_Etica data) ''0'') ''Etica Investment'')
          (\<lambda>etica_val.
        bind_err (validate_fields pf (dict_get (d_Ziidi data) [])) (\<lambda>ziidi_fields.
        Inr \<lparr>month = JStr month_label,
             chumz = \<lparr>pd_fields = fields_json chumz_fields, pd_version = JNum 1\<rparr>,
             cash = \<lparr>sv_value = JNum cash_val, sv_version = JNum 1\<rparr>,
             crypto = \<lparr>sv_value = JNum crypto_val, sv_version = JNum 1\<rparr>,
             etica = \<lparr>sv_value = JNum etica_val, sv_version = JNum 1\<rparr>,
             ziidi = \<lparr>pd_fields = fields_json ziidi_fields, pd_version = JNum 1\<rparr>,
             timestamp = JStr now\<rparr>))))))"

text \<open>The controller's \<^verbatim>\<open>add_month_data\<close>: every exception of the \<^verbatim>\<open>try\<close> block is
  logged and shown, none is raised. The refresh of the summary table is a widget
  operation and is not modelled.\<close>

definition add_month_data ::
  "(string \<Rightarrow> real option) \<Rightarrow> string \<Rightarrow> world \<Rightarrow> FinancialPlannerModel \<Rightarrow> form_data \<Rightarrow>
     world \<times> FinancialPlannerModel" where
  "add_month_data pf now w m data =
     (case new_month_data pf now data of
        Inl e \<Rightarrow> (show_error (logger_error w ''Error adding month data: %s'' e) e, m)
      | Inr month_data \<Rightarrow>
          (let (w1, m1) = add_month w m month_data in
           (show_info w1
              (''Data for '' @ strip (dict_get (d_month data) []) @ '' added successfully!''),
            m1)))"

subsection \<open>The view: the entry form and the New command\<close>


text \<open>The form: the text of the month entry and, for every key of \<^verbatim>\<open>self.entries\<close>, the
  text of its entry widget. \<^verbatim>\<open>create_main_widgets\<close> makes one widget per portfolio
  field, under the key \<^verbatim>\<open>f"{portfolio}_{field}"\<close>; \<open>typed\<close> is what the user has typed
  into each.\<close>

record view =
  month_entry :: string
  entries :: "(string \<times> string) list"










text \<open>\<^verbatim>\<open>clear_all\<close>, the handler of File / New; \<open>yes\<close> is the user's answer to the
  confirmation box.\<close>

definition clear_all :: "bool \<Rightarrow> FinancialPlannerModel \<Rightarrow> FinancialPlannerModel" where
  "clear_all yes m = (if yes then m\<lparr>months := []\<rparr> else m)"

subsection \<open>Vocabulary of the properties\<close>




text \<open>The ledger after a successful \<^verbatim>\<open>add_month\<close>: snapshot pushed, redo stack
  cleared, record appended.\<close>

definition added :: "FinancialPlannerModel \<Rightarrow> MonthData \<Rightarrow> FinancialPlannerModel" where
  "added m md =
     m\<lparr>undo_stack := undo_stack m @ [months m], redo_stack := [], months := months m @ [md]\<rparr>"









subsection \<open>Concrete scenarios\<close>

definition clock0 :: "nat \<Rightarrow> string" where
  "clock0 i = ''2025-03-01T12:00:00''"

definition world0 :: world where
  "world0 = \<lparr>fs = Map.empty, writable = (\<lambda>p. True), logged = [], shown = []\<rparr>"


definition model0 :: FinancialPlannerModel where
  "model0 = \<lparr>storage_file = ''month_data.json'', months = [], undo_stack = [], redo_stack = []\<rparr>"

definition march_form :: form_data where
  "march_form =
     \<lparr>d_month = Some '' March 2025 '',
      d_Chumz = Some [(''Emergency Fares'', ''200''), (''Quick Savings'', ''300'')],
      d_Cash = Some ''200'', d_Crypto = Some ''50'', d_Etica = Some ''0'',
      d_Ziidi = Some [(''Ziidi Shopping'', ''400'')]\<rparr>"

definition march :: MonthData where
  "march =
     \<lparr>month = JStr ''March 2025'',
      chumz = \<lparr>pd_fields = JObj [(''Emergency Fares'', JNum 200), (''Quick Savings'', JNum 300)],
               pd_version = JNum 1\<rparr>,
      cash = \<lparr>sv_value = JNum 200, sv_version = JNum 1\<rparr>,
      crypto = \<lparr>sv_value = JNum 50, sv_version = JNum 1\<rparr>,
      etica = \<lparr>sv_value = JNum 0, sv_version = JNum 1\<rparr>,
      ziidi = \<lparr>pd_fields = JObj [(''Ziidi Shopping'', JNum 400)], pd_version = JNum 1\<rparr>,
      timestamp = JStr ''2025-03-01T12:00:00''\<rparr>"



text \<open>A stored entry in the legacy format (Etica under \<^verbatim>\<open>investment\<close>, some version tags
  missing), the record it decodes to, and an entry whose Etica object has neither key.\<close>

definition legacy_entry :: json where
  "legacy_entry = JObj
     [(''month'', JStr ''January 2025''),
      (''chumz'', JObj [(''fields'', JObj [(''Quick Savings'', JNum 10)])]),
      (''cash'', JObj [(''value'', JNum 1)]),
      (''crypto'', JObj [(''value'', JNum 2), (''version'', JNum 1)]),
      (''etica'', JObj [(''investment'', JNum 500)]),
      (''ziidi'', JObj [(''fields'', JObj []), (''version'', JNum 1)]),
      (''timestamp'', JStr ''2025-01-31T09:00:00'')]"

definition legacy_month :: MonthData where
  "legacy_month =
     \<lparr>month = JStr ''January 2025'',
      chumz = \<lparr>pd_fields = JObj [(''Quick Savings'', JNum 10)], pd_version = JNum 1\<rparr>,
      cash = \<lparr>sv_value = JNum 1, sv_version = JNum 1\<rparr>,
      crypto = \<lparr>sv_value = JNum 2, sv_version = JNum 1\<rparr>,
      etica = \<lparr>sv_value = JNum 500, sv_version = JNum 1\<rparr>,
      ziidi = \<lparr>pd_fields = JObj [], pd_version = JNum 1\<rparr>,
      timestamp = JStr ''2025-01-31T09:00:00''\<rparr>"

definition keyless_entry :: json where
  "keyless_entry = JObj
     [(''month'', JStr ''February 2025''),
      (''chumz'', JObj [(''fields'', JObj [])]),
      (''cash'', JObj [(''value'', JNum 1)]),
      (''crypto'', JObj [(''value'', JNum 2)]),
      (''etica'', JObj [(''version'', JNum 1)]),
      (''ziidi'', JObj [(''fields'', JObj [])])]"

definition legacy_world :: world where
  "legacy_world = world0\<lparr>fs := [''month_data.json'' \<mapsto> Json (JArr [legacy_entry])]\<rparr>"

definition damaged_world :: world where
  "damaged_world =
     world0\<lparr>fs := [''broken.json'' \<mapsto> Json (JArr [legacy_entry, keyless_entry, legacy_entry]),
                   ''garbage.json'' \<mapsto> Malformed,
                   ''locked.json'' \<mapsto> Unreadable,
                   ''number.json'' \<mapsto> Json (JNum 5)]\<rparr>"

definition march_model :: FinancialPlannerModel where
  "march_model = model0\<lparr>months := [march], undo_stack := [[]]\<rparr>"

text \<open>A run of the program: construct the model on an empty disk, add March through the
  controller, undo.\<close>

definition scenario_added :: "world \<times> FinancialPlannerModel" where
  "scenario_added =
     add_month_data py_float ''2025-03-01T12:00:00'' (fst (init_model clock0 world0 ''month_data.json''))
       (snd (init_model clock0 world0 ''month_data.json'')) march_form"

definition scenario_undone :: "error option \<times> world \<times> FinancialPlannerModel" where
  "scenario_undone = undo (fst scenario_added) (snd scenario_added)"


section \<open>Properties\<close>

subsection \<open>Lemmas about the operations\<close>

lemma bind_err_simps [simp]:
  "bind_err (Inl e) f = Inl e" "bind_err (Inr x) f = f x"
  by (simp_all add: bind_err_def)



lemma append_entries_append:
  "append_entries clock (xs @ ys) ms =
     (case append_entries clock xs ms of
        (None, ms') \<Rightarrow> append_entries clock ys ms'
      | (Some e, ms') \<Rightarrow> (Some e, ms'))"
  by (induction xs arbitrary: ms) (simp_all split: sum.splits)

lemma append_entries_length:
  "append_entries clock xs ms = (None, ms') \<Longrightarrow> length ms' = length ms + length xs"
  by (induction xs arbitrary: ms) (auto split: sum.splits)


lemma save_data_writable:
  "writable w (storage_file m) \<Longrightarrow>
   save_data w m =
     logger_info (w\<lparr>fs := (fs w)(storage_file m \<mapsto> Json (JArr (map asdict (months m))))\<rparr>)
       ''Data saved to %s'' [ArgStr (storage_file m)]"
  by (simp add: save_data_def write_json_def)


lemma etica_of_dict:
  "getitem entry ''etica'' = Inr (JObj kvs) \<Longrightarrow>
   etica_of entry =
     (case map_of kvs ''value'' of
        Some v \<Rightarrow> Inr \<lparr>sv_value = v, sv_version = dict_get (map_of kvs ''version'') (JNum 1)\<rparr>
      | None \<Rightarrow>
          (case map_of kvs ''investment'' of
             Some v \<Rightarrow> Inr \<lparr>sv_value = v, sv_version = dict_get (map_of kvs ''version'') (JNum 1)\<rparr>
           | None \<Rightarrow> Inl (KeyError ''investment'')))"
  by (simp add: etica_of_def contains_def getitem_def get_default_def dict_get_def
      split: option.splits)

lemma MonthData_of_etica: "MonthData_of now entry = Inr md \<Longrightarrow> etica_of entry = Inr (etica md)"
  by (auto simp: MonthData_of_def bind_err_def split: sum.splits)











subsection \<open>Lemmas about the scenarios\<close>

lemmas json_ops =
  getitem_def get_default_def contains_def iter_def MonthData_of_def PortfolioData_of_def
  SingleValueData_of_def etica_of_def

lemma strip_march: "strip '' March 2025 '' = ''March 2025''"
  by (simp add: strip_def isspace_def)

lemma py_float_examples:
  "py_float ''200'' = Some 200" "py_float ''300'' = Some 300" "py_float ''50'' = Some 50"
  "py_float ''0'' = Some 0" "py_float ''400'' = Some 400" "py_float ''10'' = Some 10"
  "py_float ''-5'' = Some (- 5)" "py_float ''abc'' = None"
  by (simp_all add: py_float_def strip_def isspace_def unsigned_float_def isdigit_def
      nat_of_digits_def)


lemma new_month_data_march: "new_month_data py_float ''2025-03-01T12:00:00'' march_form = Inr march"
  by (simp add: new_month_data_def march_form_def march_def dict_get_def strip_march
      validate_numeric_field_def py_float_examples fields_json_def)


lemma MonthData_of_legacy: "MonthData_of now legacy_entry = Inr legacy_month"
  by (simp add: json_ops legacy_entry_def legacy_month_def)

lemma MonthData_of_keyless: "MonthData_of now keyless_entry = Inl (KeyError ''investment'')"
  by (simp add: json_ops keyless_entry_def)

lemma scenario_added_eq:
  "snd scenario_added = march_model"
  by (simp add: scenario_added_def add_month_data_def new_month_data_march init_model_def
      load_data_def world0_def add_month_def march_model_def model0_def Let_def split: prod.splits)

lemma scenario_undone_eq:
  "fst scenario_undone = None \<and>
   snd (snd scenario_undone) = model0\<lparr>redo_stack := [[march]]\<rparr>"
  by (simp add: scenario_undone_def undo_def scenario_added_eq march_model_def model0_def Let_def)


subsection \<open>C1: which operations clear the redo stack\<close>

text \<open>
  C1 as stated says that every mutating operation other than undo and redo clears
  \<open>redo_stack\<close>, \<^verbatim>\<open>clear_all\<close> and \<^verbatim>\<open>import_data\<close> included. The code assigns
  \<^verbatim>\<open>self.months\<close> in both and touches neither stack. In the run "construct, add
  March, undo" the redo stack holds one snapshot; it still holds it after \<^verbatim>\<open>clear_all\<close>
  has emptied the months, and after \<^verbatim>\<open>import_data\<close> has replaced them.
\<close>

theorem redo_stack_kept_by_clear_and_import:
  "fst scenario_undone = None \<and>
   months (clear_all True (snd (snd scenario_undone))) = [] \<and>
   redo_stack (clear_all True (snd (snd scenario_undone))) \<noteq> [] \<and>
   fst (import_data clock0 legacy_world (snd (snd scenario_undone)) ''month_data.json'') = None \<and>
   months (snd (snd (import_data clock0 legacy_world (snd (snd scenario_undone)) ''month_data.json'')))
     = [legacy_month] \<and>
   redo_stack (snd (snd (import_data clock0 legacy_world (snd (snd scenario_undone)) ''month_data.json'')))
     \<noteq> []"
  by (simp add: scenario_undone_eq clear_all_def import_data_def read_json_def legacy_world_def
      world0_def iter_def MonthData_of_legacy model0_def Let_def)

text \<open>
  C1, amended. In every ledger state, \<open>redo_stack\<close> is empty after \<^verbatim>\<open>add_month\<close> (and
  so after every successful add through the controller); \<^verbatim>\<open>clear_all\<close> and
  \<^verbatim>\<open>import_data\<close>, whether the import succeeds or raises, leave \<open>undo_stack\<close> and
  \<open>redo_stack\<close> exactly as they were.
\<close>

theorem redo_stack_after_mutation:
  "redo_stack (snd (add_month w m md)) = [] \<and>
   (new_month_data pf now data = Inr md \<longrightarrow>
      redo_stack (snd (add_month_data pf now w m data)) = []) \<and>
   undo_stack (clear_all yes m) = undo_stack m \<and>
   redo_stack (clear_all yes m) = redo_stack m \<and>
   undo_stack (snd (snd (import_data clock w m path))) = undo_stack m \<and>
   redo_stack (snd (snd (import_data clock w m path))) = redo_stack m"
  by (simp add: add_month_def add_month_data_def clear_all_def import_data_def Let_def
      split: sum.splits prod.splits option.splits)

theorem redo_stack_after_mutation_witness:
  "new_month_data py_float ''2025-03-01T12:00:00'' march_form = Inr march \<and>
   redo_stack (snd (add_month world0 (model0\<lparr>redo_stack := [[march]]\<rparr>) march)) = [] \<and>
   redo_stack (snd (add_month_data py_float ''2025-03-01T12:00:00'' world0
      (model0\<lparr>redo_stack := [[march]]\<rparr>) march_form)) = [] \<and>
   redo_stack (clear_all True (model0\<lparr>redo_stack := [[march]]\<rparr>)) = [[march]] \<and>
   redo_stack (snd (snd (import_data clock0 legacy_world (model0\<lparr>redo_stack := [[march]]\<rparr>)
      ''month_data.json''))) = [[march]]"
  using redo_stack_after_mutation [where w = world0 and m = "model0\<lparr>redo_stack := [[march]]\<rparr>"
      and md = march and pf = py_float and now = "''2025-03-01T12:00:00''" and data = march_form
      and yes = True and clock = clock0 and path = "''month_data.json''"]
    redo_stack_after_mutation [where w = legacy_world and m = "model0\<lparr>redo_stack := [[march]]\<rparr>"
      and md = march and pf = py_float and now = "''2025-03-01T12:00:00''" and data = march_form
      and yes = True and clock = clock0 and path = "''month_data.json''"]
  by (simp add: new_month_data_march)

subsection \<open>C2: a failed save does not undo the mutation\<close>



subsection \<open>C3: undo followed by redo\<close>

text \<open>
  C3. In every ledger state with a non-empty \<open>undo_stack\<close>, \<^verbatim>\<open>undo\<close> succeeds, the
  \<^verbatim>\<open>redo\<close> that follows succeeds, and the ledger is then equal to the one before the
  undo: the same months (deep equality of the records), and the same two stacks.
\<close>

theorem undo_then_redo:
  "undo_stack m \<noteq> [] \<Longrightarrow>
   \<exists>w1 m1 w2. undo w m = (None, w1, m1) \<and> redo w1 m1 = (None, w2, m)"
  by (simp add: undo_def redo_def Let_def)

theorem undo_then_redo_witness:
  "undo_stack march_model \<noteq> [] \<and>
   (\<exists>w1 m1 w2. undo world0 march_model = (None, w1, m1) \<and> redo w1 m1 = (None, w2, march_model))"
  using undo_then_redo [of march_model world0] by (simp add: march_model_def model0_def)

subsection \<open>C4: the Etica scalar is read from value or investment, written as value\<close>

text \<open>
  C4. Decoding an entry whose \<^verbatim>\<open>etica\<close> is an object takes the scalar from the key
  \<^verbatim>\<open>value\<close> if present, otherwise from \<^verbatim>\<open>investment\<close>, and raises
  \<^verbatim>\<open>KeyError('investment')\<close> when both are missing; the Etica container of a decoded
  record is that result. Encoding a record emits the Etica scalar under \<^verbatim>\<open>value\<close>
  (with the version tag, and no \<^verbatim>\<open>investment\<close> key), and that is what a successful
  save writes. The legacy entry with only \<^verbatim>\<open>investment: 500\<close> decodes to 500.
\<close>

theorem etica_value_or_investment:
  "(getitem entry ''etica'' = Inr (JObj kvs) \<longrightarrow>
      etica_of entry =
        (case map_of kvs ''value'' of
           Some v \<Rightarrow> Inr \<lparr>sv_value = v, sv_version = dict_get (map_of kvs ''version'') (JNum 1)\<rparr>
         | None \<Rightarrow>
             (case map_of kvs ''investment'' of
                Some v \<Rightarrow>
                  Inr \<lparr>sv_value = v, sv_version = dict_get (map_of kvs ''version'') (JNum 1)\<rparr>
              | None \<Rightarrow> Inl (KeyError ''investment'')))) \<and>
   (MonthData_of now entry = Inr md \<longrightarrow> etica_of entry = Inr (etica md)) \<and>
   getitem (asdict md') ''etica'' =
     Inr (JObj [(''value'', sv_value (etica md')), (''version'', sv_version (etica md'))]) \<and>
   (writable w (storage_file m) \<longrightarrow>
      fs (save_data w m) (storage_file m) = Some (Json (JArr (map asdict (months m)))))"
  by (simp add: etica_of_dict MonthData_of_etica asdict_def asdict_SingleValueData_def getitem_def
      save_data_writable logger_info_def)

theorem etica_value_or_investment_witness:
  "getitem legacy_entry ''etica'' = Inr (JObj [(''investment'', JNum 500)]) \<and>
   MonthData_of ''2025-03-01T12:00:00'' legacy_entry = Inr legacy_month \<and>
   etica_of legacy_entry = Inr \<lparr>sv_value = JNum 500, sv_version = JNum 1\<rparr> \<and>
   sv_value (etica legacy_month) = JNum 500 \<and>
   getitem (asdict legacy_month) ''etica'' = Inr (JObj [(''value'', JNum 500), (''version'', JNum 1)]) \<and>
   writable world0 (storage_file (model0\<lparr>months := [legacy_month]\<rparr>)) \<and>
   fs (save_data world0 (model0\<lparr>months := [legacy_month]\<rparr>)) ''month_data.json'' =
     Some (Json (JArr [asdict legacy_month]))"
proof -
  have g: "getitem legacy_entry ''etica'' = Inr (JObj [(''investment'', JNum 500)])"
    by (simp add: legacy_entry_def getitem_def)
  have wr: "writable world0 (storage_file (model0\<lparr>months := [legacy_month]\<rparr>))"
    by (simp add: world0_def)
  have e: "etica legacy_month = \<lparr>sv_value = JNum 500, sv_version = JNum 1\<rparr>"
    by (simp add: legacy_month_def)
  show ?thesis
    using g wr
      etica_value_or_investment [where entry = legacy_entry and kvs = "[(''investment'', JNum 500)]"
        and now = "''2025-03-01T12:00:00''" and md = legacy_month and md' = legacy_month
        and w = world0 and m = "model0\<lparr>months := [legacy_month]\<rparr>"]
    by (simp add: MonthData_of_legacy e dict_get_def model0_def)
qed

subsection \<open>C5: building and adding a month is all-or-nothing\<close>



subsection \<open>C6: what the add path stores\<close>




subsection \<open>C7: export followed by import\<close>



subsection \<open>C8: undo and redo on an empty stack\<close>

text \<open>
  C8. \<^verbatim>\<open>undo\<close> called with an empty \<open>undo_stack\<close> raises "Nothing to undo." and leaves
  the months, both stacks and the world as they were; \<^verbatim>\<open>redo\<close> called with an empty
  \<open>redo_stack\<close> raises "Nothing to redo." and leaves everything as it was.
\<close>

theorem undo_redo_empty_stack:
  "(undo_stack m = [] \<longrightarrow>
      undo w m = (Some (InputValidationError ''Nothing to undo.''), w, m)) \<and>
   (redo_stack m = [] \<longrightarrow>
      redo w m = (Some (InputValidationError ''Nothing to redo.''), w, m))"
  by (simp add: undo_def redo_def)

theorem undo_redo_empty_stack_witness:
  "undo_stack model0 = [] \<and> redo_stack model0 = [] \<and>
   undo world0 model0 = (Some (InputValidationError ''Nothing to undo.''), world0, model0) \<and>
   redo world0 model0 = (Some (InputValidationError ''Nothing to redo.''), world0, model0)"
  using undo_redo_empty_stack [of model0 world0] by (simp add: model0_def)

subsection \<open>C9: loading at construction\<close>

text \<open>
  C9. Constructing the model always returns a model (\<^verbatim>\<open>load_data\<close> catches every
  exception of its \<^verbatim>\<open>try\<close> block). With no backing file the months are empty and only
  an information record is logged. With a backing file that cannot be opened, is not
  JSON, is not iterable, or has an entry that fails to decode, the months are empty and
  the exception is logged as an error. Only a file whose entries all decode gives a
  non-empty ledger.
\<close>

theorem load_at_construction:
  "(fs w path = None \<longrightarrow>
      init_model clock w path =
        (logger_info w ''No storage file found. Starting with empty data.'' [],
         \<lparr>storage_file = path, months = [], undo_stack = [], redo_stack = []\<rparr>)) \<and>
   (fs w path = Some Unreadable \<longrightarrow>
      init_model clock w path =
        (logger_error w ''Failed to load data: %s'' OSError,
         \<lparr>storage_file = path, months = [], undo_stack = [], redo_stack = []\<rparr>)) \<and>
   (fs w path = Some Malformed \<longrightarrow>
      init_model clock w path =
        (logger_error w ''Failed to load data: %s'' JSONDecodeError,
         \<lparr>storage_file = path, months = [], undo_stack = [], redo_stack = []\<rparr>)) \<and>
   (fs w path = Some (Json j) \<and> iter j = Inl e \<longrightarrow>
      init_model clock w path =
        (logger_error w ''Failed to load data: %s'' e,
         \<lparr>storage_file = path, months = [], undo_stack = [], redo_stack = []\<rparr>)) \<and>
   (fs w path = Some (Json j) \<and> iter j = Inr es \<and>
    append_entries clock es [] = (Some e, ms) \<longrightarrow>
      init_model clock w path =
        (logger_error w ''Failed to load data: %s'' e,
         \<lparr>storage_file = path, months = [], undo_stack = [], redo_stack = []\<rparr>)) \<and>
   (fs w path = Some (Json j) \<and> iter j = Inr es \<and>
    append_entries clock es [] = (None, ms) \<longrightarrow>
      init_model clock w path =
        (logger_info w ''Data loaded from %s'' [ArgStr path],
         \<lparr>storage_file = path, months = ms, undo_stack = [], redo_stack = []\<rparr>))"
  by (simp add: init_model_def load_data_def read_json_def Let_def)

theorem load_at_construction_witness:
  "fs world0 ''month_data.json'' = None \<and>
   months (snd (init_model clock0 world0 ''month_data.json'')) = [] \<and>
   logged (fst (init_model clock0 world0 ''month_data.json'')) =
     [(INFO, ''No storage file found. Starting with empty data.'', [])] \<and>
   fs damaged_world ''locked.json'' = Some Unreadable \<and>
   months (snd (init_model clock0 damaged_world ''locked.json'')) = [] \<and>
   logged (fst (init_model clock0 damaged_world ''locked.json'')) =
     [(ERROR, ''Failed to load data: %s'', [ArgErr OSError])] \<and>
   fs damaged_world ''garbage.json'' = Some Malformed \<and>
   months (snd (init_model clock0 damaged_world ''garbage.json'')) = [] \<and>
   logged (fst (init_model clock0 damaged_world ''garbage.json'')) =
     [(ERROR, ''Failed to load data: %s'', [ArgErr JSONDecodeError])] \<and>
   fs damaged_world ''number.json'' = Some (Json (JNum 5)) \<and> iter (JNum 5) = Inl TypeError \<and>
   months (snd (init_model clock0 damaged_world ''number.json'')) = [] \<and>
   logged (fst (init_model clock0 damaged_world ''number.json'')) =
     [(ERROR, ''Failed to load data: %s'', [ArgErr TypeError])] \<and>
   fs damaged_world ''broken.json'' = Some (Json (JArr [legacy_entry, keyless_entry, legacy_entry])) \<and>
   iter (JArr [legacy_entry, keyless_entry, legacy_entry]) =
     Inr [legacy_entry, keyless_entry, legacy_entry] \<and>
   append_entries clock0 [legacy_entry, keyless_entry, legacy_entry] [] =
     (Some (KeyError ''investment''), [legacy_month]) \<and>
   months (snd (init_model clock0 damaged_world ''broken.json'')) = [] \<and>
   logged (fst (init_model clock0 damaged_world ''broken.json'')) =
     [(ERROR, ''Failed to load data: %s'', [ArgErr (KeyError ''investment'')])] \<and>
   fs legacy_world ''month_data.json'' = Some (Json (JArr [legacy_entry])) \<and>
   iter (JArr [legacy_entry]) = Inr [legacy_entry] \<and>
   append_entries clock0 [legacy_entry] [] = (None, [legacy_month]) \<and>
   months (snd (init_model clock0 legacy_world ''month_data.json'')) = [legacy_month]"
proof -
  have f: "fs world0 ''month_data.json'' = None"
    "fs damaged_world ''locked.json'' = Some Unreadable"
    "fs damaged_world ''garbage.json'' = Some Malformed"
    "fs damaged_world ''number.json'' = Some (Json (JNum 5))"
    "fs damaged_world ''broken.json'' = Some (Json (JArr [legacy_entry, keyless_entry, legacy_entry]))"
    "fs legacy_world ''month_data.json'' = Some (Json (JArr [legacy_entry]))"
    by (simp_all add: world0_def damaged_world_def legacy_world_def)
  have i: "iter (JNum 5) = Inl TypeError"
    "iter (JArr [legacy_entry, keyless_entry, legacy_entry]) =
       Inr [legacy_entry, keyless_entry, legacy_entry]"
    "iter (JArr [legacy_entry]) = Inr [legacy_entry]"
    by (simp_all add: iter_def)
  have a: "append_entries clock0 [legacy_entry, keyless_entry, legacy_entry] [] =
       (Some (KeyError ''investment''), [legacy_month])"
    "append_entries clock0 [legacy_entry] [] = (None, [legacy_month])"
    by (simp_all add: MonthData_of_legacy MonthData_of_keyless)
  have l: "logged world0 = []" "logged damaged_world = []"
    by (simp_all add: world0_def damaged_world_def)
  show ?thesis
    using f i a
      load_at_construction [where w = world0 and path = "''month_data.json''" and clock = clock0]
      load_at_construction [where w = damaged_world and path = "''locked.json''" and clock = clock0]
      load_at_construction [where w = damaged_world and path = "''garbage.json''" and clock = clock0]
      load_at_construction [where w = damaged_world and path = "''number.json''" and clock = clock0
        and j = "JNum 5" and e = TypeError]
      load_at_construction [where w = damaged_world and path = "''broken.json''" and clock = clock0
        and j = "JArr [legacy_entry, keyless_entry, legacy_entry]"
        and es = "[legacy_entry, keyless_entry, legacy_entry]"
        and e = "KeyError ''investment''" and ms = "[legacy_month]"]
      load_at_construction [where w = legacy_world and path = "''month_data.json''" and clock = clock0
        and j = "JArr [legacy_entry]" and es = "[legacy_entry]" and ms = "[legacy_month]"]
    by (simp add: logger_info_def logger_error_def l)
qed

subsection \<open>C10: import is not atomic\<close>

text \<open>
  C10. If the file parses to a list whose entries decode up to some entry that raises,
  \<^verbatim>\<open>import_data\<close> raises that exception, logs it, and leaves the ledger's months equal
  to the decoded entries before the failing one: one record per preceding entry, not
  the months held before the import.
\<close>

theorem import_not_atomic:
  assumes "fs w path = Some (Json (JArr (good @ bad # rest)))"
    and "append_entries clock good [] = (None, ms)"
    and "MonthData_of (clock (length ms)) bad = Inl e"
  shows "import_data clock w m path =
           (Some e, logger_error w ''Import failed: %s'' e, m\<lparr>months := ms\<rparr>) \<and>
         length ms = length good"
  using assms append_entries_length [OF assms(2)]
  by (simp add: import_data_def read_json_def iter_def append_entries_append Let_def)

theorem import_not_atomic_witness:
  "fs damaged_world ''broken.json'' = Some (Json (JArr ([legacy_entry] @ keyless_entry # [legacy_entry]))) \<and>
   append_entries clock0 [legacy_entry] [] = (None, [legacy_month]) \<and>
   MonthData_of (clock0 (length [legacy_month])) keyless_entry = Inl (KeyError ''investment'') \<and>
   months march_model = [march] \<and>
   import_data clock0 damaged_world march_model ''broken.json'' =
     (Some (KeyError ''investment''),
      logger_error damaged_world ''Import failed: %s'' (KeyError ''investment''),
      march_model\<lparr>months := [legacy_month]\<rparr>)"
proof -
  have f: "fs damaged_world ''broken.json'' =
      Some (Json (JArr ([legacy_entry] @ keyless_entry # [legacy_entry])))"
    by (simp add: damaged_world_def world0_def)
  have g: "append_entries clock0 [legacy_entry] [] = (None, [legacy_month])"
    by (simp add: MonthData_of_legacy)
  have b: "MonthData_of (clock0 (length [legacy_month])) keyless_entry = Inl (KeyError ''investment'')"
    by (rule MonthData_of_keyless)
  show ?thesis
    using f g b import_not_atomic [OF f g b, of march_model]
    by (simp add: march_model_def model0_def)
qed

end
